theory Spec2Isabelle
  imports Complex_Main
begin

section \<open>Numbers, rounding and formatting as Python has them\<close>

text \<open>
  The measurements of \<^verbatim>\<open>app.py\<close> are the numbers of a decoded JSON response, Python
  floats, that is IEEE binary64 values. A float is modelled by the real number it
  denotes, and every operation of the source that rounds is modelled with its rounding:
  \<^item> \<^verbatim>\<open>statistics.mean\<close> sums and divides exact fractions and returns the float nearest
    to the exact mean (\<open>to_double\<close>);
  \<^item> the division of two ints and the product of a float with an int return the float
    nearest to the exact result (\<open>to_double\<close>);
  \<^item> \<^verbatim>\<open>round(x)\<close> and \<^verbatim>\<open>round(x, 1)\<close> round the exact value of the float \<open>x\<close>, a tie
    going to the even neighbour;
  \<^item> \<^verbatim>\<open>min\<close>, \<^verbatim>\<open>max\<close> and the comparisons are exact.

  Outside the model: infinities and NaN (no operation here leaves the range of the finite
  floats when its arguments are in it), a measurement that is itself the negative zero, a
  mean that underflows to the negative zero, and a JSON number written without a
  fraction, which decodes to an int that \<^verbatim>\<open>round\<close> keeps an int and an f-string prints
  without a decimal.

  A summary statistic is the int literal \<^verbatim>\<open>0\<close> of an \<^verbatim>\<open>else 0\<close> branch, which prints as
  \<^verbatim>\<open>0\<close>, or a float that \<^verbatim>\<open>round(x, 1)\<close> returned: the float nearest to a number of
  tenths, written \<open>PyFloat\<close> of that decimal, or the negative zero, which \<^verbatim>\<open>round\<close>
  returns for a negative \<open>x\<close> above \<open>-0.05\<close> and which prints as \<^verbatim>\<open>-0.0\<close>. Comparing such
  a float with an integer threshold gives what comparing the decimal gives, the rounding
  to the nearest float being monotone and the integers in question floats themselves.
\<close>

datatype pynum = PyInt int | PyFloat real | PyNegZero

fun num_val :: "pynum \<Rightarrow> real" where
  "num_val (PyInt i) = of_int i"
| "num_val (PyFloat x) = x"
| "num_val PyNegZero = 0"

datatype py_error = StatisticsError | ValueError | ZeroDivisionError

definition bind_err :: "py_error + 'a \<Rightarrow> ('a \<Rightarrow> py_error + 'b) \<Rightarrow> py_error + 'b" where
  "bind_err m f = (case m of Inl e \<Rightarrow> Inl e | Inr v \<Rightarrow> f v)"

text \<open>\<^verbatim>\<open>round(x)\<close>: the nearest integer, a tie going to the even neighbour.\<close>

definition py_round :: "real \<Rightarrow> int" where
  "py_round x =
     (let f = \<lfloor>x\<rfloor>; r = x - of_int f
      in if r < 1 / 2 then f
         else if 1 / 2 < r then f + 1
         else if even f then f else f + 1)"

text \<open>
  \<^verbatim>\<open>round(x, 1)\<close> of a float: the nearest number of tenths, a tie going to the even
  tenth, with the sign of \<open>x\<close> when that number is zero.
\<close>

definition py_round1 :: "real \<Rightarrow> pynum" where
  "py_round1 x =
     (let k = py_round (x * 10)
      in if k = 0 \<and> x < 0 then PyNegZero else PyFloat (of_int k / 10))"

subsection \<open>Rounding to the nearest binary64 float\<close>

text \<open>The number of binary digits of a natural number (\<^verbatim>\<open>int.bit_length\<close>).\<close>

fun bit_length :: "nat \<Rightarrow> nat" where
  "bit_length n = (if n = 0 then 0 else Suc (bit_length (n div 2)))"

declare bit_length.simps [simp del]

definition pow2 :: "int \<Rightarrow> real" where
  "pow2 e = (if 0 \<le> e then 2 ^ nat e else 1 / 2 ^ nat (- e))"

text \<open>The binary exponent of a positive real \<open>a\<close>: the \<open>e\<close> with \<open>2^e \<le> a < 2^(e+1)\<close>.\<close>

definition float_exponent :: "real \<Rightarrow> int" where
  "float_exponent a =
     (if 1 \<le> a then int (bit_length (nat \<lfloor>a\<rfloor>)) - 1
      else (let k = int (bit_length (nat \<lfloor>1 / a\<rfloor>)) - 1
            in if a * 2 ^ nat k = 1 then - k else - k - 1))"

text \<open>
  The binary64 float nearest to a real, a tie going to the even significand: the floats
  of the binade of \<open>x\<close> are the multiples of \<open>2^(e - 52)\<close>, and below \<open>2^(-1022)\<close> the
  subnormal ones are the multiples of \<open>2^(-1074)\<close>.
\<close>

definition to_double :: "real \<Rightarrow> real" where
  "to_double x =
     (if x = 0 then 0
      else let e = max (float_exponent \<bar>x\<bar>) (- 1022);
               ulp = pow2 (e - 52)
           in of_int (py_round (x / ulp)) * ulp)"

text \<open>
  \<^verbatim>\<open>statistics.mean\<close> raises \<^verbatim>\<open>StatisticsError\<close> on no data, and otherwise converts the
  exact mean to a float.
\<close>

definition mean :: "real list \<Rightarrow> py_error + real" where
  "mean xs = (if xs = [] then Inl StatisticsError
              else Inr (to_double (sum_list xs / real (length xs))))"

text \<open>The builtins \<^verbatim>\<open>min\<close> and \<^verbatim>\<open>max\<close> raise \<^verbatim>\<open>ValueError\<close> on an empty list.\<close>

fun py_min :: "real list \<Rightarrow> py_error + real" where
  "py_min [] = Inl ValueError"
| "py_min (x # xs) = Inr (fold min xs x)"

fun py_max :: "real list \<Rightarrow> py_error + real" where
  "py_max [] = Inl ValueError"
| "py_max (x # xs) = Inr (fold max xs x)"

subsection \<open>Decimal text\<close>

definition digit_char :: "nat \<Rightarrow> char" where
  "digit_char d = ''0123456789'' ! (d mod 10)"

fun str_nat :: "nat \<Rightarrow> string" where
  "str_nat n = (if n < 10 then [digit_char n]
                else str_nat (n div 10) @ [digit_char (n mod 10)])"

declare str_nat.simps [simp del]

text \<open>\<^verbatim>\<open>str\<close> of an int, as an f-string field \<^verbatim>\<open>{n}\<close> prints it.\<close>

definition str_int :: "int \<Rightarrow> string" where
  "str_int i = (if i < 0 then ''-'' @ str_nat (nat (- i)) else str_nat (nat i))"

text \<open>
  \<^verbatim>\<open>str\<close> of the float nearest to a number of tenths, as \<^verbatim>\<open>round(x, 1)\<close> returns it:
  the integer part, a point and the one decimal digit, which is Python's shortest
  round-trip text of such a float below \<^verbatim>\<open>1e16\<close> in magnitude. From there on Python prints
  an exponent, which is not modelled: a statistic of that size is outside the model.
\<close>

definition str_float :: "real \<Rightarrow> string" where
  "str_float x =
     (let n = nat \<lfloor>\<bar>x\<bar> * 10\<rfloor>
      in (if x < 0 then ''-'' else '''') @ str_nat (n div 10) @ ''.'' @ [digit_char (n mod 10)])"

fun str_num :: "pynum \<Rightarrow> string" where
  "str_num (PyInt i) = str_int i"
| "str_num (PyFloat x) = str_float x"
| "str_num PyNegZero = ''-0.0''"

text \<open>The degree sign U+00B0 in UTF-8, a string being a list of bytes here.\<close>

definition degree_C :: string where
  "degree_C = [CHR 0xC2, CHR 0xB0, CHR ''C'']"

section \<open>The condition classifier\<close>

definition determine_main_condition :: "real \<Rightarrow> real \<Rightarrow> real \<Rightarrow> real \<Rightarrow> string" where
  "determine_main_condition avg_temp max_temp avg_rain max_wind =
     (if avg_rain > 10 then ''Rainy''
      else if max_temp > 32 then ''Hot''
      else if avg_temp < 10 then ''Cold''
      else if max_wind > 12 then ''Windy''
      else if 18 \<le> avg_temp \<and> avg_temp \<le> 25 then ''Pleasant''
      else if avg_temp > 25 then ''Warm''
      else ''Cool'')"

text \<open>
  The rule set as the specification words it: an ordered list of (condition, label) pairs
  over the four statistics, the first pair whose condition holds giving the label, and
  \<^verbatim>\<open>Cool\<close> when none does.
\<close>

type_synonym cond_input = "real \<times> real \<times> real \<times> real"

definition spec_rules :: "((cond_input \<Rightarrow> bool) \<times> string) list" where
  "spec_rules =
     [(\<lambda>(avg_temp, max_temp, avg_rain, max_wind). avg_rain > 10, ''Rainy''),
      (\<lambda>(avg_temp, max_temp, avg_rain, max_wind). max_temp > 32, ''Hot''),
      (\<lambda>(avg_temp, max_temp, avg_rain, max_wind). avg_temp < 10, ''Cold''),
      (\<lambda>(avg_temp, max_temp, avg_rain, max_wind). max_wind > 12, ''Windy''),
      (\<lambda>(avg_temp, max_temp, avg_rain, max_wind). 18 \<le> avg_temp \<and> avg_temp \<le> 25, ''Pleasant''),
      (\<lambda>(avg_temp, max_temp, avg_rain, max_wind). avg_temp > 25, ''Warm'')]"

fun first_match :: "(('a \<Rightarrow> bool) \<times> string) list \<Rightarrow> string \<Rightarrow> 'a \<Rightarrow> string" where
  "first_match [] dflt x = dflt"
| "first_match ((p, l) # rs) dflt x = (if p x then l else first_match rs dflt x)"

definition spec_labels :: "string list" where
  "spec_labels = [''Rainy'', ''Hot'', ''Cold'', ''Windy'', ''Pleasant'', ''Warm'', ''Cool'']"

section \<open>Observations\<close>

text \<open>
  One entry of \<^verbatim>\<open>historical_data\<close>: the dictionary that \<^verbatim>\<open>get_historical_weather_nasa\<close>
  appends for a year. A measurement that is \<^verbatim>\<open>None\<close> (or whose key is missing, which
  \<^verbatim>\<open>d.get\<close> reads as \<^verbatim>\<open>None\<close>) is \<open>None\<close>.
\<close>

record observation =
  year :: int
  date :: string
  temp_avg :: "real option"
  temp_max :: "real option"
  temp_min :: "real option"
  wind_avg :: "real option"
  wind_max :: "real option"
  precip :: "real option"

section \<open>The observation set builder\<close>

text \<open>
  \<^verbatim>\<open>params_data\<close> is \<^verbatim>\<open>data['properties']['parameter']\<close> of the decoded response: a
  dictionary from a parameter name to a dictionary from a date string to a value, where a
  JSON \<^verbatim>\<open>null\<close> is the value \<open>None\<close>.
\<close>

type_synonym series = "string \<rightharpoonup> real option"
type_synonym params = "string \<rightharpoonup> series"

text \<open>\<^verbatim>\<open>params_data.get(name, {})\<close> and \<^verbatim>\<open>series.get(date_str)\<close>.\<close>

definition get_series :: "params \<Rightarrow> string \<Rightarrow> series" where
  "get_series params_data name = (case params_data name of None \<Rightarrow> Map.empty | Some s \<Rightarrow> s)"

definition get_value :: "series \<Rightarrow> string \<Rightarrow> real option" where
  "get_value s date_str = (case s date_str of None \<Rightarrow> None | Some v \<Rightarrow> v)"

text \<open>The format field \<^verbatim>\<open>{n:02d}\<close> of a month or a day, which are positive.\<close>

definition pad2 :: "nat \<Rightarrow> string" where
  "pad2 n = (if n < 10 then ''0'' @ str_nat n else str_nat n)"

definition date_string :: "int \<Rightarrow> nat \<Rightarrow> nat \<Rightarrow> string" where
  "date_string yr month day = str_int yr @ pad2 month @ pad2 day"

text \<open>The body of the loop \<^verbatim>\<open>for year in range(start_year, end_year + 1)\<close>.\<close>

fun collect_years :: "params \<Rightarrow> nat \<Rightarrow> nat \<Rightarrow> int list \<Rightarrow> observation list" where
  "collect_years params_data month day [] = []"
| "collect_years params_data month day (yr # yrs) =
     (let date_str = date_string yr month day;
          temp_data = get_series params_data ''T2M''
      in if temp_data date_str \<noteq> None
         then \<lparr>year = yr, date = date_str,
               temp_avg = get_value (get_series params_data ''T2M'') date_str,
               temp_max = get_value (get_series params_data ''T2M_MAX'') date_str,
               temp_min = get_value (get_series params_data ''T2M_MIN'') date_str,
               wind_avg = get_value (get_series params_data ''WS10M'') date_str,
               wind_max = get_value (get_series params_data ''WS10M_MAX'') date_str,
               precip = get_value (get_series params_data ''PRECTOTCORR'') date_str\<rparr>
              # collect_years params_data month day yrs
         else collect_years params_data month day yrs)"

text \<open>
  \<^verbatim>\<open>get_historical_weather_nasa\<close> from the decoded response on: the year of the clock
  is the parameter \<open>current_year\<close>, the request and its failure branches are outside.
\<close>

definition build_observations :: "params \<Rightarrow> int \<Rightarrow> int \<Rightarrow> nat \<Rightarrow> nat \<Rightarrow> observation list" where
  "build_observations params_data current_year years month day =
     (let start_year = current_year - years;
          end_year = current_year - 1
      in collect_years params_data month day [start_year..end_year])"

section \<open>The statistical aggregator\<close>

text \<open>\<^verbatim>\<open>[d[f] for d in historical_data if d.get(f) is not None]\<close>\<close>

definition valid :: "(observation \<Rightarrow> real option) \<Rightarrow> observation list \<Rightarrow> real list" where
  "valid fld historical_data =
     map (\<lambda>d. the (fld d)) (filter (\<lambda>d. fld d \<noteq> None) historical_data)"

text \<open>\<^verbatim>\<open>round(f(xs), 1) if xs else dflt\<close>\<close>

definition rounded_or :: "(real list \<Rightarrow> py_error + real) \<Rightarrow> real list \<Rightarrow> pynum \<Rightarrow> py_error + pynum" where
  "rounded_or f xs dflt =
     (if xs \<noteq> [] then bind_err (f xs) (\<lambda>v. Inr (py_round1 v)) else Inr dflt)"

text \<open>The local variables of lines 149 to 155.\<close>

record stats =
  st_avg_temp :: pynum
  st_min_temp :: pynum
  st_max_temp :: pynum
  st_avg_wind :: pynum
  st_max_wind :: pynum
  st_avg_rain :: pynum
  st_max_rain :: pynum

definition compute_stats :: "observation list \<Rightarrow> py_error + stats" where
  "compute_stats historical_data =
     (let valid_temps_avg = valid temp_avg historical_data;
          valid_temps_max = valid temp_max historical_data;
          valid_temps_min = valid temp_min historical_data;
          valid_winds_avg = valid wind_avg historical_data;
          valid_winds_max = valid wind_max historical_data;
          valid_precip = valid precip historical_data
      in bind_err (mean valid_temps_avg) (\<lambda>m.
         let avg_temp = py_round1 m in
         bind_err (rounded_or py_min valid_temps_min avg_temp) (\<lambda>min_temp.
         bind_err (rounded_or py_max valid_temps_max avg_temp) (\<lambda>max_temp.
         bind_err (rounded_or mean valid_winds_avg (PyInt 0)) (\<lambda>avg_wind.
         bind_err (rounded_or py_max valid_winds_max (PyInt 0)) (\<lambda>max_wind.
         bind_err (rounded_or mean valid_precip (PyInt 0)) (\<lambda>avg_rain.
         bind_err (rounded_or py_max valid_precip (PyInt 0)) (\<lambda>max_rain.
         Inr \<lparr>st_avg_temp = avg_temp, st_min_temp = min_temp, st_max_temp = max_temp,
              st_avg_wind = avg_wind, st_max_wind = max_wind,
              st_avg_rain = avg_rain, st_max_rain = max_rain\<rparr>))))))))"

text \<open>
  \<^verbatim>\<open>round((sum(1 for v in xs if p(v)) / total_days) * 100) if total_days > 0 else 0\<close>,
  the sum being the number of values of \<open>xs\<close> that satisfy \<open>p\<close>: the quotient of the two
  ints is a float, its product with 100 is a float, and \<^verbatim>\<open>round\<close> makes that an int.
\<close>

definition probability :: "(real \<Rightarrow> bool) \<Rightarrow> real list \<Rightarrow> nat \<Rightarrow> int" where
  "probability p xs total_days =
     (if total_days > 0
      then py_round (to_double (to_double (real (length (filter p xs)) / real total_days) * 100))
      else 0)"

record probs =
  very_hot :: int
  very_cold :: int
  very_windy :: int
  very_wet :: int

record analysis =
  main_prediction :: string
  temp_range :: string
  avg_temp :: pynum
  wind_info :: string
  rain_info :: string
  probabilities :: probs
  confidence :: string

text \<open>
  The result is \<open>Inr None\<close> where the function returns \<^verbatim>\<open>None\<close>, \<open>Inr (Some r)\<close> where
  it returns the dictionary \<open>r\<close>, and \<open>Inl e\<close> where it would raise \<open>e\<close>.
\<close>

definition analyze_weather_data :: "observation list \<Rightarrow> py_error + analysis option" where
  "analyze_weather_data historical_data =
     (if historical_data = [] then Inr None
      else if valid temp_avg historical_data = [] then Inr None
      else bind_err (compute_stats historical_data) (\<lambda>s.
        let main = determine_main_condition (num_val (st_avg_temp s)) (num_val (st_max_temp s))
                     (num_val (st_avg_rain s)) (num_val (st_max_wind s));
            total_days = length historical_data;
            ps = \<lparr>very_hot = probability (\<lambda>t. t > 30) (valid temp_max historical_data) total_days,
                  very_cold = probability (\<lambda>t. t < 10) (valid temp_min historical_data) total_days,
                  very_windy = probability (\<lambda>w. w > 10) (valid wind_max historical_data) total_days,
                  very_wet = probability (\<lambda>r. r > 10) (valid precip historical_data) total_days\<rparr>
        in Inr (Some
             \<lparr>main_prediction = main,
              temp_range = str_num (st_min_temp s) @ degree_C @ '' - '' @
                           str_num (st_max_temp s) @ degree_C,
              avg_temp = st_avg_temp s,
              wind_info = str_num (st_avg_wind s) @ '' m/s (max: '' @
                          str_num (st_max_wind s) @ '' m/s)'',
              rain_info = str_num (st_avg_rain s) @ '' mm (max: '' @
                          str_num (st_max_rain s) @ '' mm)'',
              probabilities = ps,
              confidence = str_nat total_days @ '' years of NASA data''\<rparr>)))"

section \<open>The statistics as the specification words them\<close>

text \<open>
  The sum, the number and the set of the values of one field that are present in the
  observation set, whatever the other fields of the same year are.
\<close>

definition present_sum :: "(observation \<Rightarrow> real option) \<Rightarrow> observation list \<Rightarrow> real" where
  "present_sum fld h = (\<Sum>d\<leftarrow>h. case fld d of None \<Rightarrow> 0 | Some v \<Rightarrow> v)"

definition present_count :: "(observation \<Rightarrow> real option) \<Rightarrow> observation list \<Rightarrow> nat" where
  "present_count fld h = length (filter (\<lambda>d. fld d \<noteq> None) h)"

definition present_values :: "(observation \<Rightarrow> real option) \<Rightarrow> observation list \<Rightarrow> real set" where
  "present_values fld h = {v. \<exists>d\<in>set h. fld d = Some v}"


text \<open>
  The count the specification describes for the confidence note: the years that
  contributed, a year contributing when at least one of its measurements is present and so
  enters a statistic.
\<close>

definition contributes :: "observation \<Rightarrow> bool" where
  "contributes d \<longleftrightarrow>
     temp_avg d \<noteq> None \<or> temp_max d \<noteq> None \<or> temp_min d \<noteq> None \<or>
     wind_avg d \<noteq> None \<or> wind_max d \<noteq> None \<or> precip d \<noteq> None"

definition contributing_years :: "observation list \<Rightarrow> nat" where
  "contributing_years historical_data = length (filter contributes historical_data)"

section \<open>Example inputs\<close>

text \<open>Scenario A of the specification: three complete years.\<close>

definition ex_scenario_A :: "observation list" where
  "ex_scenario_A =
     [\<lparr>year = 2021, date = ''20210615'', temp_avg = Some 20, temp_max = Some 25,
       temp_min = Some 15, wind_avg = Some 3, wind_max = Some 6, precip = Some 1\<rparr>,
      \<lparr>year = 2022, date = ''20220615'', temp_avg = Some 22, temp_max = Some 26,
       temp_min = Some 16, wind_avg = Some 4, wind_max = Some 7, precip = Some 2\<rparr>,
      \<lparr>year = 2023, date = ''20230615'', temp_avg = Some 24, temp_max = Some 27,
       temp_min = Some 17, wind_avg = Some 5, wind_max = Some 8, precip = Some 1\<rparr>]"

text \<open>One year with its average temperature and nothing else.\<close>

definition ex_temp_only :: "observation list" where
  "ex_temp_only =
     [\<lparr>year = 2023, date = ''20230615'', temp_avg = Some 20, temp_max = None,
       temp_min = None, wind_avg = None, wind_max = None, precip = None\<rparr>]"

text \<open>A complete year and a year none of whose measurements is present.\<close>

definition ex_blank_year :: "observation list" where
  "ex_blank_year =
     [\<lparr>year = 2022, date = ''20220615'', temp_avg = Some 20, temp_max = Some 25,
       temp_min = Some 15, wind_avg = Some 3, wind_max = Some 6, precip = Some 1\<rparr>,
      \<lparr>year = 2023, date = ''20230615'', temp_avg = None, temp_max = None,
       temp_min = None, wind_avg = None, wind_max = None, precip = None\<rparr>]"

text \<open>
  Three years, the second missing only its maximum wind; the first is hot, cold, windy
  and wet by the thresholds of the probabilities.
\<close>

definition ex_missing_wind :: "observation list" where
  "ex_missing_wind =
     [\<lparr>year = 2021, date = ''20210615'', temp_avg = Some 20, temp_max = Some 31,
       temp_min = Some 9, wind_avg = Some 3, wind_max = Some 11, precip = Some 12\<rparr>,
      \<lparr>year = 2022, date = ''20220615'', temp_avg = Some 25, temp_max = Some 28,
       temp_min = Some 16, wind_avg = Some 4, wind_max = None, precip = Some 1\<rparr>,
      \<lparr>year = 2023, date = ''20230615'', temp_avg = Some 21, temp_max = Some 29,
       temp_min = Some 12, wind_avg = Some 5, wind_max = Some 12, precip = Some 2\<rparr>]"

text \<open>
  A response with an average temperature for 2023 only, and a wind speed for 2022 and
  2023.
\<close>

definition ex_params :: params where
  "ex_params =
     [''T2M'' \<mapsto> [''20230615'' \<mapsto> Some 21.5],
      ''WS10M'' \<mapsto> [''20220615'' \<mapsto> Some 3, ''20230615'' \<mapsto> Some 4]]"

text \<open>
  A response whose six series have a value for 2022 and whose T2M series has a JSON
  \<^verbatim>\<open>null\<close> for 2023: the builder turns it into \<open>ex_blank_year\<close>.
\<close>

definition ex_null_params :: params where
  "ex_null_params =
     [''T2M'' \<mapsto> [''20220615'' \<mapsto> Some 20, ''20230615'' \<mapsto> None],
      ''T2M_MAX'' \<mapsto> [''20220615'' \<mapsto> Some 25],
      ''T2M_MIN'' \<mapsto> [''20220615'' \<mapsto> Some 15],
      ''WS10M'' \<mapsto> [''20220615'' \<mapsto> Some 3],
      ''WS10M_MAX'' \<mapsto> [''20220615'' \<mapsto> Some 6],
      ''PRECTOTCORR'' \<mapsto> [''20220615'' \<mapsto> Some 1]]"

text \<open>
  Two years with the average temperatures 9.0 and 10.9, the second written as the float
  it is, and no other measurement: the exact mean lies half-way between two floats.
\<close>

definition ex_near_tie :: "observation list" where
  "ex_near_tie =
     [\<lparr>year = 2022, date = ''20220615'', temp_avg = Some 9, temp_max = None,
       temp_min = None, wind_avg = None, wind_max = None, precip = None\<rparr>,
      \<lparr>year = 2023, date = ''20230615'',
       temp_avg = Some (6136154492292301 / 562949953421312), temp_max = None,
       temp_min = None, wind_avg = None, wind_max = None, precip = None\<rparr>]"


section \<open>Facts about the building blocks\<close>

lemma valid_empty_iff: "valid fld h = [] \<longleftrightarrow> (\<forall>d\<in>set h. fld d = None)"
  by (simp add: valid_def filter_empty_conv)

lemma mean_nonempty:
  "xs \<noteq> [] \<Longrightarrow> mean xs = Inr (to_double (sum_list xs / real (length xs)))"
  by (simp add: mean_def)

lemma py_min_nonempty: "xs \<noteq> [] \<Longrightarrow> py_min xs = Inr (Min (set xs))"
proof (cases xs)
  case (Cons x ys)
  have "fold min ys x = Min (set (x # ys))" by (rule Min.set_eq_fold [symmetric])
  with Cons show ?thesis by (simp del: set_simps)
qed simp

lemma py_max_nonempty: "xs \<noteq> [] \<Longrightarrow> py_max xs = Inr (Max (set xs))"
proof (cases xs)
  case (Cons x ys)
  have "fold max ys x = Max (set (x # ys))" by (rule Max.set_eq_fold [symmetric])
  with Cons show ?thesis by (simp del: set_simps)
qed simp

lemma rounded_or_mean:
  "rounded_or mean xs dflt =
     Inr (if xs = [] then dflt else py_round1 (to_double (sum_list xs / real (length xs))))"
  by (simp add: rounded_or_def bind_err_def mean_nonempty)

lemma rounded_or_min:
  "rounded_or py_min xs dflt = Inr (if xs = [] then dflt else py_round1 (Min (set xs)))"
  by (simp add: rounded_or_def bind_err_def py_min_nonempty)

lemma rounded_or_max:
  "rounded_or py_max xs dflt = Inr (if xs = [] then dflt else py_round1 (Max (set xs)))"
  by (simp add: rounded_or_def bind_err_def py_max_nonempty)

lemma compute_stats_accepted:
  assumes "valid temp_avg h \<noteq> []"
  shows "compute_stats h = Inr
     \<lparr>st_avg_temp = py_round1 (to_double (sum_list (valid temp_avg h) / real (length (valid temp_avg h)))),
      st_min_temp = (if valid temp_min h = []
         then py_round1 (to_double (sum_list (valid temp_avg h) / real (length (valid temp_avg h))))
         else py_round1 (Min (set (valid temp_min h)))),
      st_max_temp = (if valid temp_max h = []
         then py_round1 (to_double (sum_list (valid temp_avg h) / real (length (valid temp_avg h))))
         else py_round1 (Max (set (valid temp_max h)))),
      st_avg_wind = (if valid wind_avg h = [] then PyInt 0
         else py_round1 (to_double (sum_list (valid wind_avg h) / real (length (valid wind_avg h))))),
      st_max_wind = (if valid wind_max h = [] then PyInt 0
         else py_round1 (Max (set (valid wind_max h)))),
      st_avg_rain = (if valid precip h = [] then PyInt 0
         else py_round1 (to_double (sum_list (valid precip h) / real (length (valid precip h))))),
      st_max_rain = (if valid precip h = [] then PyInt 0
         else py_round1 (Max (set (valid precip h))))\<rparr>"
  using assms
  by (simp add: compute_stats_def Let_def rounded_or_mean rounded_or_min rounded_or_max
      mean_nonempty bind_err_def)

lemma valid_nonempty_iff: "valid fld h \<noteq> [] \<longleftrightarrow> (\<exists>d\<in>set h. fld d \<noteq> None)"
  by (simp add: valid_empty_iff)

lemma accepted_nonempty: "valid fld h \<noteq> [] \<Longrightarrow> h \<noteq> []"
  by (auto simp: valid_def)

lemma analyze_accepted:
  assumes "valid temp_avg h \<noteq> []"
  shows "analyze_weather_data h =
    bind_err (compute_stats h) (\<lambda>s.
        let main = determine_main_condition (num_val (st_avg_temp s)) (num_val (st_max_temp s))
                     (num_val (st_avg_rain s)) (num_val (st_max_wind s));
            total_days = length h;
            ps = \<lparr>very_hot = probability (\<lambda>t. t > 30) (valid temp_max h) total_days,
                  very_cold = probability (\<lambda>t. t < 10) (valid temp_min h) total_days,
                  very_windy = probability (\<lambda>w. w > 10) (valid wind_max h) total_days,
                  very_wet = probability (\<lambda>r. r > 10) (valid precip h) total_days\<rparr>
        in Inr (Some
             \<lparr>main_prediction = main,
              temp_range = str_num (st_min_temp s) @ degree_C @ '' - '' @
                           str_num (st_max_temp s) @ degree_C,
              avg_temp = st_avg_temp s,
              wind_info = str_num (st_avg_wind s) @ '' m/s (max: '' @
                          str_num (st_max_wind s) @ '' m/s)'',
              rain_info = str_num (st_avg_rain s) @ '' mm (max: '' @
                          str_num (st_max_rain s) @ '' mm)'',
              probabilities = ps,
              confidence = str_nat total_days @ '' years of NASA data''\<rparr>))"
  using assms accepted_nonempty [OF assms] by (simp add: analyze_weather_data_def)

lemma py_round_ge: "of_int a \<le> x \<Longrightarrow> a \<le> py_round x"
proof -
  assume "of_int a \<le> x"
  then have "a \<le> \<lfloor>x\<rfloor>" by (simp add: le_floor_iff)
  then show ?thesis by (simp add: py_round_def Let_def)
qed

lemma py_round_le: "x \<le> of_int b \<Longrightarrow> py_round x \<le> b"
proof -
  assume xb: "x \<le> of_int b"
  then have fb: "\<lfloor>x\<rfloor> \<le> b" by (metis floor_mono floor_of_int)
  show ?thesis
  proof (cases "\<lfloor>x\<rfloor> = b")
    case True
    then have "x - of_int \<lfloor>x\<rfloor> \<le> 0" using xb by simp
    then show ?thesis using True by (simp add: py_round_def Let_def)
  next
    case False
    with fb have "\<lfloor>x\<rfloor> + 1 \<le> b" by simp
    then show ?thesis by (simp add: py_round_def Let_def)
  qed
qed

lemma py_round_of_int: "py_round (of_int n) = n"
  by (simp add: py_round_def)

lemma py_round_nearest: "\<bar>of_int (py_round x) - x\<bar> \<le> 1 / 2"
proof -
  have "of_int \<lfloor>x\<rfloor> \<le> x" "x < of_int \<lfloor>x\<rfloor> + 1" by linarith+
  then show ?thesis by (auto simp: py_round_def Let_def)
qed

subsection \<open>The rounding to a float\<close>

lemma pow2_pos: "0 < pow2 e"
  by (simp add: pow2_def)

lemma bit_length_pos: "0 < n \<Longrightarrow> 0 < bit_length n"
  by (subst bit_length.simps) simp

lemma bit_length_le: "n < 2 ^ k \<Longrightarrow> bit_length n \<le> k"
proof (induction n arbitrary: k rule: bit_length.induct)
  case (1 n)
  show ?case
  proof (cases "n = 0")
    case True
    then show ?thesis by (subst bit_length.simps) simp
  next
    case False
    with "1.prems" obtain j where k: "k = Suc j" by (cases k) auto
    with "1.prems" have "n div 2 < 2 ^ j" by auto
    with "1.IH" [OF False] have "bit_length (n div 2) \<le> j" by simp
    with False k show ?thesis by (subst bit_length.simps) simp
  qed
qed

lemma bit_length_bounds: "0 < n \<Longrightarrow> 2 ^ (bit_length n - 1) \<le> n \<and> n < 2 ^ bit_length n"
proof (induction n rule: bit_length.induct)
  case (1 n)
  show ?case
  proof (cases "n div 2 = 0")
    case True
    with "1.prems" have "n = 1" by (auto simp: div_eq_0_iff)
    then show ?thesis by (simp add: bit_length.simps)
  next
    case False
    then have pos: "0 < n div 2" by simp
    from "1.prems" have n0: "n \<noteq> 0" by simp
    from "1.IH" [OF n0 pos]
    have ih: "2 ^ (bit_length (n div 2) - 1) \<le> n div 2" "n div 2 < 2 ^ bit_length (n div 2)"
      by simp_all
    have bl: "bit_length n = Suc (bit_length (n div 2))"
      using n0 by (subst bit_length.simps) simp
    from bit_length_pos [OF pos] obtain j where j: "bit_length (n div 2) = Suc j"
      by (cases "bit_length (n div 2)") auto
    from ih j have "2 * 2 ^ j \<le> 2 * (n div 2)" by simp
    also have "\<dots> \<le> n" by simp
    finally have lo: "2 ^ (bit_length n - 1) \<le> n" by (simp add: bl j)
    from ih(2) have "n div 2 + 1 \<le> 2 ^ bit_length (n div 2)" by simp
    then have "2 * (n div 2) + 2 \<le> 2 * 2 ^ bit_length (n div 2)" by simp
    moreover have "n < 2 * (n div 2) + 2" by presburger
    ultimately have hi: "n < 2 ^ bit_length n" by (simp add: bl)
    from lo hi show ?thesis by simp
  qed
qed

text \<open>The exponent is the one of the binade: \<open>2^e \<le> a < 2^(e+1)\<close>.\<close>

lemma float_exponent_bounds:
  assumes "0 < a"
  shows "pow2 (float_exponent a) \<le> a \<and> a < 2 * pow2 (float_exponent a)"
proof (cases "1 \<le> a")
  case True
  define n where "n = nat \<lfloor>a\<rfloor>"
  from True have n1: "0 < n" by (simp add: n_def)
  have na: "real n \<le> a" using True by (simp add: n_def)
  have an: "a < real n + 1"
  proof -
    have "a < of_int \<lfloor>a\<rfloor> + 1" by linarith
    then show ?thesis using True by (simp add: n_def)
  qed
  from bit_length_pos [OF n1] obtain j where j: "bit_length n = Suc j"
    by (cases "bit_length n") auto
  from bit_length_bounds [OF n1] j have b: "2 ^ j \<le> n" "n < 2 * 2 ^ j" by simp_all
  have e: "float_exponent a = int j" using True by (simp add: float_exponent_def n_def [symmetric] j)
  from b(1) have "(2::real) ^ j \<le> real n" by (metis of_nat_le_iff of_nat_numeral of_nat_power)
  then have lo: "2 ^ j \<le> a" using na by linarith
  from b(2) have "n + 1 \<le> 2 * 2 ^ j" by simp
  then have "real (n + 1) \<le> real (2 * 2 ^ j)" by (simp only: of_nat_le_iff)
  then have "real n + 1 \<le> 2 * 2 ^ j" by simp
  then have hi: "a < 2 * 2 ^ j" using an by linarith
  from lo hi show ?thesis by (simp add: e pow2_def)
next
  case False
  define n where "n = nat \<lfloor>1 / a\<rfloor>"
  from False assms have inv: "1 < 1 / a" by simp
  then have "1 \<le> \<lfloor>1 / a\<rfloor>" by (simp add: le_floor_iff)
  then have n1: "0 < n" by (simp add: n_def)
  from assms have "0 \<le> \<lfloor>1 / a\<rfloor>" by simp
  then have rn: "real n = of_int \<lfloor>1 / a\<rfloor>" by (simp add: n_def)
  have na: "real n \<le> 1 / a" unfolding rn by (rule of_int_floor_le)
  have an: "1 / a < real n + 1" unfolding rn by linarith
  from bit_length_pos [OF n1] obtain j where j: "bit_length n = Suc j"
    by (cases "bit_length n") auto
  from bit_length_bounds [OF n1] j have b: "2 ^ j \<le> n" "n < 2 * 2 ^ j" by simp_all
  from b(1) have "(2::real) ^ j \<le> real n" by (metis of_nat_le_iff of_nat_numeral of_nat_power)
  then have "2 ^ j \<le> 1 / a" using na by linarith
  with assms have up: "a * 2 ^ j \<le> 1" by (simp add: field_simps)
  from b(2) have "n + 1 \<le> 2 * 2 ^ j" by simp
  then have "real (n + 1) \<le> real (2 * 2 ^ j)" by (simp only: of_nat_le_iff)
  then have "real n + 1 \<le> 2 * 2 ^ j" by simp
  then have "1 / a < 2 * 2 ^ j" using an by linarith
  with assms have low: "1 < a * (2 * 2 ^ j)" by (simp add: field_simps)
  show ?thesis
  proof (cases "a * 2 ^ j = 1")
    case True
    then have e: "float_exponent a = - int j"
      using False by (simp add: float_exponent_def n_def [symmetric] j Let_def)
    from True have a: "a = 1 / 2 ^ j" by (simp add: field_simps)
    have "pow2 (- int j) = 1 / 2 ^ j" by (cases j) (simp_all add: pow2_def nat_add_distrib)
    then have p: "pow2 (float_exponent a) = 1 / 2 ^ j" by (simp only: e)
    have "(1::real) / 2 ^ j < 2 / 2 ^ j" by (simp add: divide_strict_right_mono)
    then show ?thesis unfolding p using a by simp
  next
    case ne: False
    then have e: "float_exponent a = - int j - 1"
      using False by (simp add: float_exponent_def n_def [symmetric] j Let_def)
    from ne up have "a * 2 ^ j < 1" by simp
    then have hi: "a < 1 / 2 ^ j" by (simp add: field_simps)
    from low have lo: "1 / (2 * 2 ^ j) < a" by (simp add: field_simps)
    have p: "pow2 (- int j - 1) = 1 / (2 * 2 ^ j)"
      by (simp add: pow2_def nat_add_distrib)
    from lo hi show ?thesis by (simp add: e p)
  qed
qed

lemma float_exponent_le:
  assumes "0 < a" and "a < 2 ^ k" and "0 < k"
  shows "float_exponent a \<le> int k - 1"
proof (cases "1 \<le> a")
  case True
  have "nat \<lfloor>a\<rfloor> < 2 ^ k"
  proof -
    have "real_of_int \<lfloor>a\<rfloor> \<le> a" by simp
    also have "a < 2 ^ k" by fact
    finally have "\<lfloor>a\<rfloor> < 2 ^ k" by (metis of_int_less_iff of_int_numeral of_int_power)
    then show ?thesis using True by (simp add: nat_less_iff)
  qed
  then have "bit_length (nat \<lfloor>a\<rfloor>) \<le> k" by (rule bit_length_le)
  with True show ?thesis by (simp add: float_exponent_def)
next
  case False
  with assms(1) have "1 < 1 / a" by simp
  then have "1 \<le> \<lfloor>1 / a\<rfloor>" by (simp add: le_floor_iff)
  then have "0 < nat \<lfloor>1 / a\<rfloor>" by simp
  then have "0 < bit_length (nat \<lfloor>1 / a\<rfloor>)" by (rule bit_length_pos)
  with False assms(3) show ?thesis by (simp add: float_exponent_def Let_def)
qed

lemma to_double_zero: "to_double 0 = 0"
  by (simp add: to_double_def)

lemma to_double_nonneg: "0 \<le> x \<Longrightarrow> 0 \<le> to_double x"
proof -
  assume x: "0 \<le> x"
  have "0 \<le> py_round (x / pow2 e)" for e
    using x pow2_pos [of e] py_round_ge [of 0 "x / pow2 e"] by simp
  then show ?thesis
    using pow2_pos by (simp add: to_double_def Let_def less_imp_le)
qed

text \<open>A natural number below \<open>2^53\<close> is a float, and rounding does not cross it.\<close>

lemma to_double_le_nat:
  assumes x: "0 < x" and xb: "x \<le> real b" and b: "b < 2 ^ 53"
  shows "to_double x \<le> real b"
proof -
  define e where "e = max (float_exponent \<bar>x\<bar>) (- 1022)"
  have "x < 2 ^ 53"
  proof -
    from b have "real b < 2 ^ 53" by (metis of_nat_less_iff of_nat_numeral of_nat_power)
    with xb show ?thesis by simp
  qed
  with x have "float_exponent \<bar>x\<bar> \<le> 52"
    using float_exponent_le [of "\<bar>x\<bar>" 53] by simp
  then have e52: "e \<le> 52" by (simp add: e_def)
  define n where "n = nat (52 - e)"
  from e52 have ulp: "pow2 (e - 52) = 1 / 2 ^ n"
    by (cases "e = 52") (simp_all add: pow2_def n_def)
  have "x / pow2 (e - 52) = x * 2 ^ n" by (simp add: ulp)
  also have "\<dots> \<le> real b * 2 ^ n" using xb by simp
  also have "\<dots> = of_int (int b * 2 ^ n)" by simp
  finally have "py_round (x / pow2 (e - 52)) \<le> int b * 2 ^ n" by (rule py_round_le)
  then have "real_of_int (py_round (x / pow2 (e - 52))) \<le> real_of_int (int b * 2 ^ n)"
    by (simp only: of_int_le_iff)
  then have "real_of_int (py_round (x / pow2 (e - 52))) * (1 / 2 ^ n) \<le> real b"
    by (simp add: field_simps)
  moreover from x have "to_double x = of_int (py_round (x / pow2 (e - 52))) * pow2 (e - 52)"
    by (simp add: to_double_def Let_def e_def)
  ultimately show ?thesis by (simp add: ulp)
qed

text \<open>The result is within half a unit in the last place of the argument.\<close>

lemma to_double_nearest:
  "\<bar>to_double x - x\<bar> \<le> pow2 (max (float_exponent \<bar>x\<bar>) (- 1022) - 52) / 2"
proof (cases "x = 0")
  case True
  then show ?thesis using pow2_pos by (simp add: to_double_def less_imp_le)
next
  case False
  define u where "u = pow2 (max (float_exponent \<bar>x\<bar>) (- 1022) - 52)"
  have u: "0 < u" by (simp add: u_def pow2_pos)
  have "\<bar>of_int (py_round (x / u)) - x / u\<bar> \<le> 1 / 2" by (rule py_round_nearest)
  then have "\<bar>of_int (py_round (x / u)) - x / u\<bar> * u \<le> 1 / 2 * u"
    using u by (simp only: mult_le_cancel_right_pos)
  moreover have "\<bar>of_int (py_round (x / u)) - x / u\<bar> * u = \<bar>of_int (py_round (x / u)) * u - x\<bar>"
  proof -
    have "\<bar>of_int (py_round (x / u)) - x / u\<bar> * u = \<bar>(of_int (py_round (x / u)) - x / u) * u\<bar>"
      using u by (simp add: abs_mult)
    also have "(of_int (py_round (x / u)) - x / u) * u = of_int (py_round (x / u)) * u - x"
      using u by (simp add: field_simps)
    finally show ?thesis .
  qed
  ultimately have "\<bar>of_int (py_round (x / u)) * u - x\<bar> \<le> u / 2" by simp
  with False show ?thesis by (simp add: to_double_def Let_def u_def)
qed

text \<open>A negative value above \<open>-0.05\<close> rounds to the negative zero.\<close>

lemma py_round1_negative_zero: "str_num (py_round1 (- 1 / 25)) = ''-0.0''"
  by (simp add: py_round1_def py_round_def)

subsection \<open>Counting\<close>

lemma count_valid:
  "length (filter p (valid fld h)) =
   length (filter (\<lambda>d. case fld d of None \<Rightarrow> False | Some v \<Rightarrow> p v) h)"
  by (induction h) (auto simp: valid_def)

lemma count_valid_le: "length (filter p (valid fld h)) \<le> length h"
  by (simp add: count_valid)

lemma probability_bounds:
  assumes "length (filter p xs) \<le> n"
  shows "0 \<le> probability p xs n \<and> probability p xs n \<le> 100"
proof (cases "n > 0")
  case True
  let ?c = "real (length (filter p xs)) / real n"
  let ?q = "to_double ?c * 100"
  have c0: "0 \<le> ?c" by simp
  have "real (length (filter p xs)) \<le> real n" using assms by simp
  then have c1: "?c \<le> 1" using True by (simp add: pos_divide_le_eq)
  have d0: "0 \<le> to_double ?c" using c0 by (rule to_double_nonneg)
  have d1: "to_double ?c \<le> 1"
  proof (cases "?c = 0")
    case True
    have "to_double ?c = 0" by (simp only: True to_double_zero)
    then show ?thesis by simp
  next
    case False
    with c0 have "0 < ?c" by simp
    from to_double_le_nat [OF this, of 1] c1 show ?thesis by simp
  qed
  have q0: "0 \<le> ?q" using d0 by simp
  have q1: "?q \<le> 100" using d1 by simp
  have r0: "0 \<le> to_double ?q" using q0 by (rule to_double_nonneg)
  have r1: "to_double ?q \<le> 100"
  proof (cases "?q = 0")
    case True
    have "to_double ?q = 0" by (simp only: True to_double_zero)
    then show ?thesis by simp
  next
    case False
    with q0 have "0 < ?q" by simp
    from to_double_le_nat [OF this, of 100] q1 show ?thesis by simp
  qed
  have lo: "0 \<le> py_round (to_double ?q)" using r0 py_round_ge [of 0 "to_double ?q"] by simp
  have hi: "py_round (to_double ?q) \<le> 100" using r1 py_round_le [of "to_double ?q" 100] by simp
  from lo hi True show ?thesis by (simp add: probability_def)
next
  case False
  then show ?thesis by (simp add: probability_def)
qed

lemma probability_nil: "probability p [] n = 0"
  by (simp add: probability_def to_double_zero py_round_def)


lemma sum_valid: "sum_list (valid fld h) = present_sum fld h"
  by (induction h) (auto simp: valid_def present_sum_def)

lemma length_valid: "length (valid fld h) = present_count fld h"
  by (simp add: valid_def present_count_def)

lemma set_valid: "set (valid fld h) = present_values fld h"
  by (force simp: valid_def present_values_def image_iff)

lemma valid_cong: "map fld h' = map fld h \<Longrightarrow> valid fld h' = valid fld h"
proof -
  assume eq: "map fld h' = map fld h"
  have "valid fld k = map the (filter (\<lambda>v. v \<noteq> None) (map fld k))" for k
    by (simp add: valid_def filter_map comp_def)
  with eq show ?thesis by simp
qed

lemma years_collect:
  "map year (collect_years pd m d ys) =
     filter (\<lambda>y. date_string y m d \<in> dom (get_series pd ''T2M'')) ys"
  by (induction ys) (auto simp: Let_def)

lemma fields_collect:
  "\<forall>ob\<in>set (collect_years pd m d ys).
     date ob = date_string (year ob) m d \<and>
     temp_avg ob = get_value (get_series pd ''T2M'') (date ob) \<and>
     temp_max ob = get_value (get_series pd ''T2M_MAX'') (date ob) \<and>
     temp_min ob = get_value (get_series pd ''T2M_MIN'') (date ob) \<and>
     wind_avg ob = get_value (get_series pd ''WS10M'') (date ob) \<and>
     wind_max ob = get_value (get_series pd ''WS10M_MAX'') (date ob) \<and>
     precip ob = get_value (get_series pd ''PRECTOTCORR'') (date ob)"
  by (induction ys) (auto simp: Let_def)

lemma dom_get_series:
  "k \<in> dom (get_series pd name) \<longleftrightarrow> (\<exists>s. pd name = Some s \<and> k \<in> dom s)"
  by (auto simp: get_series_def split: option.splits)

section \<open>The classifier\<close>

text \<open>
  C1. For every four real statistics \<^verbatim>\<open>determine_main_condition\<close> returns the label of the
  first rule, in the order Rainy, Hot, Cold, Windy, Pleasant, Warm, whose condition
  holds, and Cool when none holds; the label is one of the seven, which are distinct. The
  function is total: it is defined by a chain of tests that ends in an \<^verbatim>\<open>else\<close>.
\<close>

theorem determine_main_condition_first_match:
  "determine_main_condition avg_t max_t avg_r max_w =
     first_match spec_rules ''Cool'' (avg_t, max_t, avg_r, max_w) \<and>
   determine_main_condition avg_t max_t avg_r max_w \<in> set spec_labels \<and>
   distinct spec_labels"
  by (simp add: determine_main_condition_def spec_rules_def spec_labels_def)

theorem determine_main_condition_first_match_witness:
  "determine_main_condition 5 40 15 20 = ''Rainy'' \<and>
   determine_main_condition 5 40 0 20 = ''Hot'' \<and>
   determine_main_condition 5 8 0 20 = ''Cold'' \<and>
   determine_main_condition 20 25 0 20 = ''Windy'' \<and>
   determine_main_condition 25 25 0 3 = ''Pleasant'' \<and>
   determine_main_condition 26 30 0 3 = ''Warm'' \<and>
   determine_main_condition 12 15 0 3 = ''Cool''"
  using determine_main_condition_first_match [of 5 40 15 20]
    determine_main_condition_first_match [of 5 40 0 20]
    determine_main_condition_first_match [of 5 8 0 20]
    determine_main_condition_first_match [of 20 25 0 20]
    determine_main_condition_first_match [of 25 25 0 3]
    determine_main_condition_first_match [of 26 30 0 3]
    determine_main_condition_first_match [of 12 15 0 3]
  by (simp add: spec_rules_def)

section \<open>The aggregator\<close>

text \<open>
  C2. \<^verbatim>\<open>analyze_weather_data\<close> returns \<^verbatim>\<open>None\<close> exactly when the observation set is
  empty or the average temperature of every entry is absent. On any other set it raises
  nothing and returns a populated result: the statistics are computed, the average
  temperature is the rounded mean (as a float) of the average temperatures present, the
  label is the classifier's for the statistics and one of the seven, the three strings
  print the statistics, the four probabilities are those of the four fields over all
  entries, and the confidence note counts the entries.
\<close>

theorem analyze_none_iff:
  "(analyze_weather_data h = Inr None \<longleftrightarrow> h = [] \<or> (\<forall>d\<in>set h. temp_avg d = None)) \<and>
   (h \<noteq> [] \<and> (\<exists>d\<in>set h. temp_avg d \<noteq> None) \<longrightarrow>
      (\<exists>s. compute_stats h = Inr s \<and>
        st_avg_temp s =
          py_round1 (to_double (present_sum temp_avg h / real (present_count temp_avg h))) \<and>
        determine_main_condition (num_val (st_avg_temp s)) (num_val (st_max_temp s))
          (num_val (st_avg_rain s)) (num_val (st_max_wind s)) \<in> set spec_labels \<and>
        analyze_weather_data h = Inr (Some
          \<lparr>main_prediction = determine_main_condition (num_val (st_avg_temp s))
              (num_val (st_max_temp s)) (num_val (st_avg_rain s)) (num_val (st_max_wind s)),
            temp_range = str_num (st_min_temp s) @ degree_C @ '' - '' @
                         str_num (st_max_temp s) @ degree_C,
            avg_temp = st_avg_temp s,
            wind_info = str_num (st_avg_wind s) @ '' m/s (max: '' @
                        str_num (st_max_wind s) @ '' m/s)'',
            rain_info = str_num (st_avg_rain s) @ '' mm (max: '' @
                        str_num (st_max_rain s) @ '' mm)'',
            probabilities =
              \<lparr>very_hot = probability (\<lambda>t. t > 30) (valid temp_max h) (length h),
               very_cold = probability (\<lambda>t. t < 10) (valid temp_min h) (length h),
               very_windy = probability (\<lambda>w. w > 10) (valid wind_max h) (length h),
               very_wet = probability (\<lambda>r. r > 10) (valid precip h) (length h)\<rparr>,
            confidence = str_nat (length h) @ '' years of NASA data''\<rparr>)))"
  (is "?iff \<and> (?acc \<longrightarrow> ?pop)")
proof (cases "valid temp_avg h = []")
  case True
  then show ?thesis
    by (auto simp: analyze_weather_data_def valid_empty_iff)
next
  case False
  then have ne: "h \<noteq> []" by (rule accepted_nonempty)
  from False have ex: "\<exists>d\<in>set h. temp_avg d \<noteq> None" by (simp add: valid_empty_iff)
  have lab: "determine_main_condition a b c d \<in> set spec_labels" for a b c d
    by (simp add: determine_main_condition_def spec_labels_def)
  have pop: ?pop
    using False lab
    by (simp add: analyze_accepted compute_stats_accepted bind_err_def Let_def
        sum_valid length_valid)
  from False have "analyze_weather_data h \<noteq> Inr None"
    by (simp add: analyze_accepted compute_stats_accepted bind_err_def Let_def)
  with ne ex have iff: ?iff by simp
  show ?thesis
  proof (intro conjI impI)
    show ?iff by (rule iff)
    show ?pop by (rule pop)
  qed
qed

theorem analyze_none_iff_witness:
  "analyze_weather_data [] = Inr None \<and>
   analyze_weather_data [\<lparr>year = 2023, date = ''20230615'', temp_avg = None, temp_max = Some 25,
       temp_min = Some 15, wind_avg = Some 3, wind_max = Some 6, precip = Some 1\<rparr>] = Inr None \<and>
   analyze_weather_data ex_near_tie = Inr (Some
     \<lparr>main_prediction = ''Cold'',
      temp_range = ''9.9'' @ degree_C @ '' - 9.9'' @ degree_C,
      avg_temp = PyFloat (99 / 10),
      wind_info = ''0 m/s (max: 0 m/s)'',
      rain_info = ''0 mm (max: 0 mm)'',
      probabilities = \<lparr>very_hot = 0, very_cold = 0, very_windy = 0, very_wet = 0\<rparr>,
      confidence = ''2 years of NASA data''\<rparr>)"
proof -
  have "analyze_weather_data [] = Inr None"
    using analyze_none_iff [of "[]"] by simp
  moreover have "analyze_weather_data [\<lparr>year = 2023, date = ''20230615'', temp_avg = None,
       temp_max = Some 25, temp_min = Some 15, wind_avg = Some 3, wind_max = Some 6,
       precip = Some 1\<rparr>] = Inr None"
    using analyze_none_iff [of "[\<lparr>year = 2023, date = ''20230615'', temp_avg = None,
       temp_max = Some 25, temp_min = Some 15, wind_avg = Some 3, wind_max = Some 6,
       precip = Some 1\<rparr>]"] by simp
  moreover have "analyze_weather_data ex_near_tie = Inr (Some
     \<lparr>main_prediction = ''Cold'',
      temp_range = ''9.9'' @ degree_C @ '' - 9.9'' @ degree_C,
      avg_temp = PyFloat (99 / 10),
      wind_info = ''0 m/s (max: 0 m/s)'',
      rain_info = ''0 mm (max: 0 mm)'',
      probabilities = \<lparr>very_hot = 0, very_cold = 0, very_windy = 0, very_wet = 0\<rparr>,
      confidence = ''2 years of NASA data''\<rparr>)"
  proof -
    have acc: "ex_near_tie \<noteq> [] \<and> (\<exists>d\<in>set ex_near_tie. temp_avg d \<noteq> None)"
      by (simp add: ex_near_tie_def del: not_None_eq)
    have vs: "valid temp_avg ex_near_tie = [9, 6136154492292301 / 562949953421312]"
      "valid temp_max ex_near_tie = []" "valid temp_min ex_near_tie = []"
      "valid wind_avg ex_near_tie = []" "valid wind_max ex_near_tie = []"
      "valid precip ex_near_tie = []" "length ex_near_tie = 2"
      by (simp_all add: ex_near_tie_def valid_def del: not_None_eq)
    have m: "mean [9, 6136154492292301 / 562949953421312] =
        Inr (2800676018271027 / 281474976710656)"
      by (simp add: mean_def to_double_def float_exponent_def pow2_def bit_length.simps
          py_round_def)
    have cs: "compute_stats ex_near_tie =
        Inr \<lparr>st_avg_temp = PyFloat (99 / 10), st_min_temp = PyFloat (99 / 10),
             st_max_temp = PyFloat (99 / 10), st_avg_wind = PyInt 0, st_max_wind = PyInt 0,
             st_avg_rain = PyInt 0, st_max_rain = PyInt 0\<rparr>"
      by (simp add: compute_stats_def vs m bind_err_def rounded_or_def py_round1_def
          py_round_def Let_def)
    from analyze_none_iff [of ex_near_tie, THEN conjunct2, THEN mp, OF acc]
    show ?thesis
      by (simp add: cs vs probability_nil determine_main_condition_def str_float_def
          str_int_def str_nat.simps digit_char_def)
  qed
  ultimately show ?thesis by simp
qed

text \<open>
  C3 (as amended). On every set with an average temperature present the analysis raises
  nothing and returns a result. Where no entry has an average wind, the average wind of
  the result is the int 0; likewise the maximum wind for the maximum-wind field, and the
  average and maximum rain for the precipitation field. Where no entry has a minimum
  temperature the minimum of the range is the rounded average temperature, and likewise
  the maximum: those two do not default to zero.
\<close>

theorem secondary_group_defaults:
  assumes "\<exists>d\<in>set h. temp_avg d \<noteq> None"
  shows "\<exists>s r. compute_stats h = Inr s \<and> analyze_weather_data h = Inr (Some r) \<and>
     avg_temp r = st_avg_temp s \<and>
     temp_range r = str_num (st_min_temp s) @ degree_C @ '' - '' @ str_num (st_max_temp s) @ degree_C \<and>
     wind_info r = str_num (st_avg_wind s) @ '' m/s (max: '' @ str_num (st_max_wind s) @ '' m/s)'' \<and>
     rain_info r = str_num (st_avg_rain s) @ '' mm (max: '' @ str_num (st_max_rain s) @ '' mm)'' \<and>
     ((\<forall>d\<in>set h. wind_avg d = None) \<longrightarrow> st_avg_wind s = PyInt 0) \<and>
     ((\<forall>d\<in>set h. wind_max d = None) \<longrightarrow> st_max_wind s = PyInt 0) \<and>
     ((\<forall>d\<in>set h. precip d = None) \<longrightarrow> st_avg_rain s = PyInt 0 \<and> st_max_rain s = PyInt 0) \<and>
     ((\<forall>d\<in>set h. temp_min d = None) \<longrightarrow> st_min_temp s = st_avg_temp s) \<and>
     ((\<forall>d\<in>set h. temp_max d = None) \<longrightarrow> st_max_temp s = st_avg_temp s)"
proof -
  from assms have acc: "valid temp_avg h \<noteq> []" by (simp add: valid_nonempty_iff)
  show ?thesis
    by (simp add: analyze_accepted [OF acc] compute_stats_accepted [OF acc] bind_err_def Let_def
        valid_empty_iff)
qed

theorem secondary_group_defaults_witness:
  "map wind_avg ex_temp_only = [None] \<and> map wind_max ex_temp_only = [None] \<and>
   map precip ex_temp_only = [None] \<and> map temp_min ex_temp_only = [None] \<and>
   map temp_max ex_temp_only = [None] \<and>
   (\<exists>s r. compute_stats ex_temp_only = Inr s \<and> analyze_weather_data ex_temp_only = Inr (Some r) \<and>
      st_avg_wind s = PyInt 0 \<and> st_max_wind s = PyInt 0 \<and>
      st_avg_rain s = PyInt 0 \<and> st_max_rain s = PyInt 0 \<and>
      st_min_temp s = st_avg_temp s \<and> st_max_temp s = st_avg_temp s \<and>
      wind_info r = ''0 m/s (max: 0 m/s)'' \<and> rain_info r = ''0 mm (max: 0 mm)'')"
proof -
  have absent: "\<forall>d\<in>set ex_temp_only. wind_avg d = None \<and> wind_max d = None \<and>
      precip d = None \<and> temp_min d = None \<and> temp_max d = None"
    by (simp add: ex_temp_only_def)
  have "\<exists>d\<in>set ex_temp_only. temp_avg d \<noteq> None" by (simp add: ex_temp_only_def)
  from secondary_group_defaults [OF this] absent
  have "\<exists>s r. compute_stats ex_temp_only = Inr s \<and> analyze_weather_data ex_temp_only = Inr (Some r) \<and>
      st_avg_wind s = PyInt 0 \<and> st_max_wind s = PyInt 0 \<and>
      st_avg_rain s = PyInt 0 \<and> st_max_rain s = PyInt 0 \<and>
      st_min_temp s = st_avg_temp s \<and> st_max_temp s = st_avg_temp s \<and>
      wind_info r = str_num (PyInt 0) @ '' m/s (max: '' @ str_num (PyInt 0) @ '' m/s)'' \<and>
      rain_info r = str_num (PyInt 0) @ '' mm (max: '' @ str_num (PyInt 0) @ '' mm)''"
    by fastforce
  moreover have "str_num (PyInt 0) = ''0''"
    by (simp add: str_int_def str_nat.simps digit_char_def)
  moreover have "map wind_avg ex_temp_only = [None] \<and> map wind_max ex_temp_only = [None] \<and>
   map precip ex_temp_only = [None] \<and> map temp_min ex_temp_only = [None] \<and>
   map temp_max ex_temp_only = [None]"
    by (simp add: ex_temp_only_def)
  ultimately show ?thesis by simp
qed

text \<open>
  The claim as worded fails for the two temperature extremes: with one year that has an
  average temperature of 20 and no other measurement, the minimum and the maximum of the
  result are 20.0, not zero.
\<close>

theorem temp_extremes_default_to_average:
  "map temp_min ex_temp_only = [None] \<and> map temp_max ex_temp_only = [None] \<and>
   compute_stats ex_temp_only =
     Inr \<lparr>st_avg_temp = PyFloat 20, st_min_temp = PyFloat 20, st_max_temp = PyFloat 20,
          st_avg_wind = PyInt 0, st_max_wind = PyInt 0, st_avg_rain = PyInt 0, st_max_rain = PyInt 0\<rparr> \<and>
   num_val (PyFloat 20) \<noteq> 0 \<and>
   analyze_weather_data ex_temp_only = Inr (Some
     \<lparr>main_prediction = ''Pleasant'',
      temp_range = ''20.0'' @ degree_C @ '' - 20.0'' @ degree_C,
      avg_temp = PyFloat 20,
      wind_info = ''0 m/s (max: 0 m/s)'',
      rain_info = ''0 mm (max: 0 mm)'',
      probabilities = \<lparr>very_hot = 0, very_cold = 0, very_windy = 0, very_wet = 0\<rparr>,
      confidence = ''1 years of NASA data''\<rparr>)"
  by (simp add: ex_temp_only_def analyze_weather_data_def compute_stats_def valid_def
      bind_err_def mean_def rounded_or_def py_round1_def py_round_def probability_def
      determine_main_condition_def str_float_def str_int_def str_nat.simps digit_char_def Let_def
      to_double_def float_exponent_def pow2_def bit_length.simps)



text \<open>
  C5. On every set with an average temperature present, each of the four probabilities
  is an integer from 0 to 100, and the probability of a field that no entry has is 0.
\<close>

theorem probabilities_bounds:
  assumes "\<exists>d\<in>set h. temp_avg d \<noteq> None"
  shows "\<exists>r. analyze_weather_data h = Inr (Some r) \<and>
     0 \<le> very_hot (probabilities r) \<and> very_hot (probabilities r) \<le> 100 \<and>
     0 \<le> very_cold (probabilities r) \<and> very_cold (probabilities r) \<le> 100 \<and>
     0 \<le> very_windy (probabilities r) \<and> very_windy (probabilities r) \<le> 100 \<and>
     0 \<le> very_wet (probabilities r) \<and> very_wet (probabilities r) \<le> 100 \<and>
     ((\<forall>d\<in>set h. temp_max d = None) \<longrightarrow> very_hot (probabilities r) = 0) \<and>
     ((\<forall>d\<in>set h. temp_min d = None) \<longrightarrow> very_cold (probabilities r) = 0) \<and>
     ((\<forall>d\<in>set h. wind_max d = None) \<longrightarrow> very_windy (probabilities r) = 0) \<and>
     ((\<forall>d\<in>set h. precip d = None) \<longrightarrow> very_wet (probabilities r) = 0)"
proof -
  from assms have acc: "valid temp_avg h \<noteq> []" by (simp add: valid_nonempty_iff)
  have b: "0 \<le> probability p (valid fld h) (length h) \<and> probability p (valid fld h) (length h) \<le> 100"
    for p fld
    by (rule probability_bounds) (rule count_valid_le)
  have z: "(\<forall>d\<in>set h. fld d = None) \<longrightarrow> probability p (valid fld h) (length h) = 0" for p fld
    using probability_nil by (simp add: valid_empty_iff [symmetric])
  show ?thesis
    using b z
    by (simp add: analyze_accepted [OF acc] compute_stats_accepted [OF acc] bind_err_def Let_def)
qed

theorem probabilities_bounds_witness:
  "map temp_max ex_temp_only = [None] \<and> map temp_min ex_temp_only = [None] \<and>
   map wind_max ex_temp_only = [None] \<and> map precip ex_temp_only = [None] \<and>
   (\<exists>r. analyze_weather_data ex_temp_only = Inr (Some r) \<and>
     very_hot (probabilities r) = 0 \<and> very_cold (probabilities r) = 0 \<and>
     very_windy (probabilities r) = 0 \<and> very_wet (probabilities r) = 0)"
proof -
  have "\<exists>d\<in>set ex_temp_only. temp_avg d \<noteq> None" by (simp add: ex_temp_only_def)
  moreover have "\<forall>d\<in>set ex_temp_only. temp_max d = None \<and> temp_min d = None \<and>
      wind_max d = None \<and> precip d = None"
    by (simp add: ex_temp_only_def)
  ultimately have "\<exists>r. analyze_weather_data ex_temp_only = Inr (Some r) \<and>
     very_hot (probabilities r) = 0 \<and> very_cold (probabilities r) = 0 \<and>
     very_windy (probabilities r) = 0 \<and> very_wet (probabilities r) = 0"
    using probabilities_bounds [of ex_temp_only] by blast
  then show ?thesis by (simp add: ex_temp_only_def)
qed

text \<open>
  C6. Filtering is per field. On every set with an average temperature present, the
  average temperature of the result is the rounded mean (\<^verbatim>\<open>statistics.mean\<close>, a float)
  of the average temperatures that are present, whatever else the same years lack; where the field has a value at all, the
  minimum temperature is the rounded least minimum temperature present, the maximum
  temperature, maximum wind and maximum rain are the rounded greatest values present,
  and the average wind and rain are the rounded means of the values present. Two sets
  with the same column of average temperatures have the same average temperature, so a
  year that misses only its maximum wind still counts in the temperature mean.
\<close>

theorem per_field_statistics:
  assumes "\<exists>d\<in>set h. temp_avg d \<noteq> None"
  shows "\<exists>s r. compute_stats h = Inr s \<and> analyze_weather_data h = Inr (Some r) \<and>
     avg_temp r = st_avg_temp s \<and>
     temp_range r = str_num (st_min_temp s) @ degree_C @ '' - '' @ str_num (st_max_temp s) @ degree_C \<and>
     wind_info r = str_num (st_avg_wind s) @ '' m/s (max: '' @ str_num (st_max_wind s) @ '' m/s)'' \<and>
     rain_info r = str_num (st_avg_rain s) @ '' mm (max: '' @ str_num (st_max_rain s) @ '' mm)'' \<and>
     st_avg_temp s = py_round1 (to_double (present_sum temp_avg h / real (present_count temp_avg h))) \<and>
     ((\<exists>d\<in>set h. temp_min d \<noteq> None) \<longrightarrow>
        st_min_temp s = py_round1 (Min (present_values temp_min h))) \<and>
     ((\<exists>d\<in>set h. temp_max d \<noteq> None) \<longrightarrow>
        st_max_temp s = py_round1 (Max (present_values temp_max h))) \<and>
     ((\<exists>d\<in>set h. wind_avg d \<noteq> None) \<longrightarrow>
        st_avg_wind s = py_round1 (to_double (present_sum wind_avg h / real (present_count wind_avg h)))) \<and>
     ((\<exists>d\<in>set h. wind_max d \<noteq> None) \<longrightarrow>
        st_max_wind s = py_round1 (Max (present_values wind_max h))) \<and>
     ((\<exists>d\<in>set h. precip d \<noteq> None) \<longrightarrow>
        st_avg_rain s = py_round1 (to_double (present_sum precip h / real (present_count precip h))) \<and>
        st_max_rain s = py_round1 (Max (present_values precip h))) \<and>
     (\<forall>h'. map temp_avg h' = map temp_avg h \<longrightarrow>
        (\<exists>s'. compute_stats h' = Inr s' \<and> st_avg_temp s' = st_avg_temp s))"
proof -
  from assms have acc: "valid temp_avg h \<noteq> []" by (simp add: valid_nonempty_iff)
  have other: "\<exists>s'. compute_stats h' = Inr s' \<and>
      st_avg_temp s' = py_round1 (to_double (present_sum temp_avg h / real (present_count temp_avg h)))"
    if eq: "map temp_avg h' = map temp_avg h" for h'
  proof -
    from eq have v: "valid temp_avg h' = valid temp_avg h" by (rule valid_cong)
    with acc have "valid temp_avg h' \<noteq> []" by simp
    from compute_stats_accepted [OF this] show ?thesis
      by (simp add: v sum_valid length_valid)
  qed
  have "\<exists>s r. compute_stats h = Inr s \<and> analyze_weather_data h = Inr (Some r) \<and>
     avg_temp r = st_avg_temp s \<and>
     temp_range r = str_num (st_min_temp s) @ degree_C @ '' - '' @ str_num (st_max_temp s) @ degree_C \<and>
     wind_info r = str_num (st_avg_wind s) @ '' m/s (max: '' @ str_num (st_max_wind s) @ '' m/s)'' \<and>
     rain_info r = str_num (st_avg_rain s) @ '' mm (max: '' @ str_num (st_max_rain s) @ '' mm)'' \<and>
     st_avg_temp s = py_round1 (to_double (present_sum temp_avg h / real (present_count temp_avg h))) \<and>
     ((\<exists>d\<in>set h. temp_min d \<noteq> None) \<longrightarrow>
        st_min_temp s = py_round1 (Min (present_values temp_min h))) \<and>
     ((\<exists>d\<in>set h. temp_max d \<noteq> None) \<longrightarrow>
        st_max_temp s = py_round1 (Max (present_values temp_max h))) \<and>
     ((\<exists>d\<in>set h. wind_avg d \<noteq> None) \<longrightarrow>
        st_avg_wind s = py_round1 (to_double (present_sum wind_avg h / real (present_count wind_avg h)))) \<and>
     ((\<exists>d\<in>set h. wind_max d \<noteq> None) \<longrightarrow>
        st_max_wind s = py_round1 (Max (present_values wind_max h))) \<and>
     ((\<exists>d\<in>set h. precip d \<noteq> None) \<longrightarrow>
        st_avg_rain s = py_round1 (to_double (present_sum precip h / real (present_count precip h))) \<and>
        st_max_rain s = py_round1 (Max (present_values precip h)))"
    (is "\<exists>s r. ?stats s r")
    by (simp add: analyze_accepted [OF acc] compute_stats_accepted [OF acc] bind_err_def Let_def
        valid_empty_iff sum_valid length_valid set_valid)
  then obtain s r where sr: "?stats s r" by blast
  then have "st_avg_temp s =
      py_round1 (to_double (present_sum temp_avg h / real (present_count temp_avg h)))"
    by simp
  with other have "\<forall>h'. map temp_avg h' = map temp_avg h \<longrightarrow>
        (\<exists>s'. compute_stats h' = Inr s' \<and> st_avg_temp s' = st_avg_temp s)"
    by simp
  with sr show ?thesis by blast
qed

theorem per_field_statistics_witness:
  "map wind_max ex_missing_wind = [Some 11, None, Some 12] \<and>
   map temp_avg ex_missing_wind = [Some 20, Some 25, Some 21] \<and>
   (\<exists>s r. compute_stats ex_missing_wind = Inr s \<and>
      analyze_weather_data ex_missing_wind = Inr (Some r) \<and>
      avg_temp r = PyFloat 22 \<and> st_min_temp s = PyFloat 9 \<and> st_max_temp s = PyFloat 31 \<and>
      st_avg_wind s = PyFloat 4 \<and> st_max_wind s = PyFloat 12 \<and>
      st_avg_rain s = PyFloat 5 \<and> st_max_rain s = PyFloat 12) \<and>
   (\<exists>s. compute_stats ex_near_tie = Inr s \<and> st_avg_temp s = PyFloat (99 / 10))"
proof -
  have pres: "\<exists>d\<in>set ex_missing_wind. temp_avg d \<noteq> None"
    "\<exists>d\<in>set ex_missing_wind. temp_min d \<noteq> None" "\<exists>d\<in>set ex_missing_wind. temp_max d \<noteq> None"
    "\<exists>d\<in>set ex_missing_wind. wind_avg d \<noteq> None" "\<exists>d\<in>set ex_missing_wind. wind_max d \<noteq> None"
    "\<exists>d\<in>set ex_missing_wind. precip d \<noteq> None"
    by (simp_all add: ex_missing_wind_def)
  from per_field_statistics [OF pres(1)] pres(2-6)
  have "\<exists>s r. compute_stats ex_missing_wind = Inr s \<and>
      analyze_weather_data ex_missing_wind = Inr (Some r) \<and>
      avg_temp r = py_round1 (to_double (present_sum temp_avg ex_missing_wind /
        real (present_count temp_avg ex_missing_wind))) \<and>
      st_min_temp s = py_round1 (Min (present_values temp_min ex_missing_wind)) \<and>
      st_max_temp s = py_round1 (Max (present_values temp_max ex_missing_wind)) \<and>
      st_avg_wind s = py_round1 (to_double (present_sum wind_avg ex_missing_wind /
        real (present_count wind_avg ex_missing_wind))) \<and>
      st_max_wind s = py_round1 (Max (present_values wind_max ex_missing_wind)) \<and>
      st_avg_rain s = py_round1 (to_double (present_sum precip ex_missing_wind /
        real (present_count precip ex_missing_wind))) \<and>
      st_max_rain s = py_round1 (Max (present_values precip ex_missing_wind))"
    by fastforce
  moreover have "py_round1 (to_double (present_sum temp_avg ex_missing_wind /
        real (present_count temp_avg ex_missing_wind))) = PyFloat 22"
    "py_round1 (to_double (present_sum wind_avg ex_missing_wind /
        real (present_count wind_avg ex_missing_wind))) = PyFloat 4"
    "py_round1 (to_double (present_sum precip ex_missing_wind /
        real (present_count precip ex_missing_wind))) = PyFloat 5"
    by (simp_all add: ex_missing_wind_def present_sum_def present_count_def
        py_round1_def py_round_def to_double_def float_exponent_def pow2_def
        bit_length.simps)
  moreover have "py_round1 (Min (present_values temp_min ex_missing_wind)) = PyFloat 9"
    "py_round1 (Max (present_values temp_max ex_missing_wind)) = PyFloat 31"
    "py_round1 (Max (present_values wind_max ex_missing_wind)) = PyFloat 12"
    "py_round1 (Max (present_values precip ex_missing_wind)) = PyFloat 12"
    by (simp_all add: set_valid [symmetric] valid_def ex_missing_wind_def
        py_round1_def py_round_def)
  moreover have "map wind_max ex_missing_wind = [Some 11, None, Some 12] \<and>
      map temp_avg ex_missing_wind = [Some 20, Some 25, Some 21]"
    by (simp add: ex_missing_wind_def)
  moreover have "\<exists>s. compute_stats ex_near_tie = Inr s \<and> st_avg_temp s = PyFloat (99 / 10)"
  proof -
    have "\<exists>d\<in>set ex_near_tie. temp_avg d \<noteq> None"
      by (simp add: ex_near_tie_def del: not_None_eq)
    from per_field_statistics [OF this]
    have "\<exists>s. compute_stats ex_near_tie = Inr s \<and>
        st_avg_temp s = py_round1 (to_double (present_sum temp_avg ex_near_tie /
          real (present_count temp_avg ex_near_tie)))"
      by blast
    moreover have "py_round1 (to_double (present_sum temp_avg ex_near_tie /
          real (present_count temp_avg ex_near_tie))) = PyFloat (99 / 10)"
      by (simp add: ex_near_tie_def present_sum_def present_count_def py_round1_def
          py_round_def to_double_def float_exponent_def pow2_def bit_length.simps
          del: not_None_eq)
    ultimately show ?thesis by simp
  qed
  ultimately show ?thesis by simp
qed

text \<open>
  C7. Scenario A: for three years with average temperatures 20, 22, 24, maxima 25, 26,
  27, minima 15, 16, 17, average winds 3, 4, 5, maximum winds 6, 7, 8 and precipitation
  1, 2, 1 (floats, whatever the years and date strings), the result has the average
  temperature 22.0, the range \<^verbatim>\<open>15.0\<close> to \<^verbatim>\<open>27.0\<close> degrees, the prediction Pleasant
  and the probabilities 0 for very hot and very cold.
\<close>

theorem scenario_A_result:
  "analyze_weather_data
     [\<lparr>year = y1, date = d1, temp_avg = Some 20, temp_max = Some 25,
       temp_min = Some 15, wind_avg = Some 3, wind_max = Some 6, precip = Some 1\<rparr>,
      \<lparr>year = y2, date = d2, temp_avg = Some 22, temp_max = Some 26,
       temp_min = Some 16, wind_avg = Some 4, wind_max = Some 7, precip = Some 2\<rparr>,
      \<lparr>year = y3, date = d3, temp_avg = Some 24, temp_max = Some 27,
       temp_min = Some 17, wind_avg = Some 5, wind_max = Some 8, precip = Some 1\<rparr>] =
   Inr (Some
     \<lparr>main_prediction = ''Pleasant'',
      temp_range = ''15.0'' @ degree_C @ '' - 27.0'' @ degree_C,
      avg_temp = PyFloat 22,
      wind_info = ''4.0 m/s (max: 8.0 m/s)'',
      rain_info = ''1.3 mm (max: 2.0 mm)'',
      probabilities = \<lparr>very_hot = 0, very_cold = 0, very_windy = 0, very_wet = 0\<rparr>,
      confidence = ''3 years of NASA data''\<rparr>)"
  by (simp add: analyze_weather_data_def compute_stats_def valid_def
      bind_err_def mean_def rounded_or_def py_round1_def py_round_def probability_def
      determine_main_condition_def str_float_def str_int_def str_nat.simps digit_char_def Let_def
      to_double_def float_exponent_def pow2_def bit_length.simps)

text \<open>
  C8 (as amended). On every set with an average temperature present, the confidence
  note is the number of entries of the observation set followed by
  \<^verbatim>\<open> years of NASA data\<close>. That number is at least the number of years that contribute
  a measurement, and equal to it when every entry has at least one measurement.
\<close>

theorem confidence_counts_entries:
  assumes "\<exists>d\<in>set h. temp_avg d \<noteq> None"
  shows "\<exists>r. analyze_weather_data h = Inr (Some r) \<and>
     confidence r = str_nat (length h) @ '' years of NASA data'' \<and>
     contributing_years h \<le> length h \<and>
     ((\<forall>d\<in>set h. contributes d) \<longrightarrow> contributing_years h = length h)"
proof -
  from assms have acc: "valid temp_avg h \<noteq> []" by (simp add: valid_nonempty_iff)
  have "contributing_years h \<le> length h" by (simp add: contributing_years_def)
  moreover have "(\<forall>d\<in>set h. contributes d) \<longrightarrow> contributing_years h = length h"
    by (simp add: contributing_years_def)
  moreover have "\<exists>r. analyze_weather_data h = Inr (Some r) \<and>
     confidence r = str_nat (length h) @ '' years of NASA data''"
    by (simp add: analyze_accepted [OF acc] compute_stats_accepted [OF acc] bind_err_def Let_def)
  ultimately show ?thesis by blast
qed

theorem confidence_counts_entries_witness:
  "map temp_avg ex_blank_year = [Some 20, None] \<and>
   (\<exists>r. analyze_weather_data ex_blank_year = Inr (Some r) \<and>
        confidence r = ''2 years of NASA data'')"
proof -
  have "\<exists>d\<in>set ex_blank_year. temp_avg d \<noteq> None" by (simp add: ex_blank_year_def)
  from confidence_counts_entries [OF this] obtain r where "analyze_weather_data ex_blank_year = Inr (Some r)"
    "confidence r = str_nat (length ex_blank_year) @ '' years of NASA data''" by blast
  moreover have "str_nat (length ex_blank_year) = ''2''"
    by (simp add: ex_blank_year_def str_nat.simps digit_char_def)
  moreover have "map temp_avg ex_blank_year = [Some 20, None]" by (simp add: ex_blank_year_def)
  ultimately show ?thesis by simp
qed

text \<open>
  The claim as worded fails on a set with a complete year and a year that has no
  measurement, as the builder makes it from a response with a \<^verbatim>\<open>null\<close> temperature: one
  year contributes to the statistics, the note says two.
\<close>

theorem confidence_counts_blank_year:
  "build_observations ex_null_params 2024 2 6 15 = ex_blank_year \<and>
   analyze_weather_data ex_blank_year = Inr (Some
     \<lparr>main_prediction = ''Pleasant'',
      temp_range = ''15.0'' @ degree_C @ '' - 25.0'' @ degree_C,
      avg_temp = PyFloat 20,
      wind_info = ''3.0 m/s (max: 6.0 m/s)'',
      rain_info = ''1.0 mm (max: 1.0 mm)'',
      probabilities = \<lparr>very_hot = 0, very_cold = 0, very_windy = 0, very_wet = 0\<rparr>,
      confidence = ''2 years of NASA data''\<rparr>) \<and>
   contributing_years ex_blank_year = 1 \<and>
   str_nat (contributing_years ex_blank_year) @ '' years of NASA data'' = ''1 years of NASA data''"
proof -
  have "build_observations ex_null_params 2024 2 6 15 = ex_blank_year"
    by (simp add: build_observations_def ex_null_params_def ex_blank_year_def date_string_def
        str_int_def pad2_def str_nat.simps digit_char_def get_series_def get_value_def
        upto.simps Let_def)
  moreover have "analyze_weather_data ex_blank_year = Inr (Some
     \<lparr>main_prediction = ''Pleasant'',
      temp_range = ''15.0'' @ degree_C @ '' - 25.0'' @ degree_C,
      avg_temp = PyFloat 20,
      wind_info = ''3.0 m/s (max: 6.0 m/s)'',
      rain_info = ''1.0 mm (max: 1.0 mm)'',
      probabilities = \<lparr>very_hot = 0, very_cold = 0, very_windy = 0, very_wet = 0\<rparr>,
      confidence = ''2 years of NASA data''\<rparr>)"
    by (simp add: ex_blank_year_def analyze_weather_data_def compute_stats_def valid_def
        bind_err_def mean_def rounded_or_def py_round1_def py_round_def probability_def
        determine_main_condition_def str_float_def str_int_def str_nat.simps digit_char_def
        Let_def to_double_def float_exponent_def pow2_def bit_length.simps)
  moreover have "contributing_years ex_blank_year = 1"
    by (simp add: ex_blank_year_def contributing_years_def contributes_def)
  moreover have "str_nat 1 = ''1''"
    by (simp add: str_nat.simps digit_char_def)
  ultimately show ?thesis by simp
qed

section \<open>The observation set builder\<close>

text \<open>
  C10. The builder includes a year exactly when the year lies in the window and the T2M
  series of the response has the key of that year's date string, whatever the other
  series hold; the years of its output ascend strictly; and every entry carries the date
  string of its year and the values that the six series have under it.
\<close>

theorem build_observations_years:
  "map year (build_observations pd cy n m d) =
     filter (\<lambda>y. \<exists>s. pd ''T2M'' = Some s \<and> date_string y m d \<in> dom s) [cy - n..cy - 1] \<and>
   sorted_wrt (<) (map year (build_observations pd cy n m d)) \<and>
   (\<forall>y. y \<in> year ` set (build_observations pd cy n m d) \<longleftrightarrow>
      cy - n \<le> y \<and> y \<le> cy - 1 \<and> (\<exists>s. pd ''T2M'' = Some s \<and> date_string y m d \<in> dom s)) \<and>
   (\<forall>ob\<in>set (build_observations pd cy n m d).
     date ob = date_string (year ob) m d \<and>
     temp_avg ob = get_value (get_series pd ''T2M'') (date ob) \<and>
     temp_max ob = get_value (get_series pd ''T2M_MAX'') (date ob) \<and>
     temp_min ob = get_value (get_series pd ''T2M_MIN'') (date ob) \<and>
     wind_avg ob = get_value (get_series pd ''WS10M'') (date ob) \<and>
     wind_max ob = get_value (get_series pd ''WS10M_MAX'') (date ob) \<and>
     precip ob = get_value (get_series pd ''PRECTOTCORR'') (date ob))"
proof -
  let ?P = "\<lambda>y. \<exists>s. pd ''T2M'' = Some s \<and> date_string y m d \<in> dom s"
  have ys: "map year (build_observations pd cy n m d) = filter ?P [cy - n..cy - 1]"
    by (simp add: build_observations_def years_collect dom_get_series)
  have "sorted_wrt (<) [cy - n..cy - 1]" by (simp add: strict_sorted_iff)
  then have srt: "sorted_wrt (<) (filter ?P [cy - n..cy - 1])" by (rule sorted_wrt_filter)
  have mem: "y \<in> year ` set (build_observations pd cy n m d) \<longleftrightarrow>
      cy - n \<le> y \<and> y \<le> cy - 1 \<and> ?P y" for y
  proof -
    have "year ` set (build_observations pd cy n m d) = set (map year (build_observations pd cy n m d))"
      by simp
    also have "\<dots> = set (filter ?P [cy - n..cy - 1])" by (simp only: ys)
    finally show ?thesis by auto
  qed
  have flds: "\<forall>ob\<in>set (build_observations pd cy n m d).
     date ob = date_string (year ob) m d \<and>
     temp_avg ob = get_value (get_series pd ''T2M'') (date ob) \<and>
     temp_max ob = get_value (get_series pd ''T2M_MAX'') (date ob) \<and>
     temp_min ob = get_value (get_series pd ''T2M_MIN'') (date ob) \<and>
     wind_avg ob = get_value (get_series pd ''WS10M'') (date ob) \<and>
     wind_max ob = get_value (get_series pd ''WS10M_MAX'') (date ob) \<and>
     precip ob = get_value (get_series pd ''PRECTOTCORR'') (date ob)"
    unfolding build_observations_def Let_def by (rule fields_collect)
  from ys srt mem flds show ?thesis by (simp only:) simp
qed

theorem build_observations_years_witness:
  "get_value (get_series ex_params ''WS10M'') (date_string 2022 6 15) = Some 3 \<and>
   map year (build_observations ex_params 2024 3 6 15) = [2023]"
proof -
  have "map year (build_observations ex_params 2024 3 6 15) =
      filter (\<lambda>y. \<exists>s. ex_params ''T2M'' = Some s \<and> date_string y 6 15 \<in> dom s) [2024 - 3..2024 - 1]"
    using build_observations_years [of ex_params 2024 3 6 15] by blast
  also have "\<dots> = [2023]"
    by (simp add: ex_params_def date_string_def str_int_def pad2_def str_nat.simps
        digit_char_def upto.simps)
  finally have "map year (build_observations ex_params 2024 3 6 15) = [2023]" .
  moreover have "get_value (get_series ex_params ''WS10M'') (date_string 2022 6 15) = Some 3"
    by (simp add: ex_params_def date_string_def str_int_def pad2_def str_nat.simps
        digit_char_def get_series_def get_value_def)
  ultimately show ?thesis by simp
qed

end
